theory Spec2Isabelle
  imports Complex_Main
begin

section \<open>Numbers\<close>

text \<open>
  The source computes with JavaScript numbers. Inputs (coordinates, delays, timestamps,
  configuration values, random draws) are modelled as reals. A division whose divisor can
  be zero does not raise in JavaScript: it yields \<open>Infinity\<close>, \<open>-Infinity\<close> or \<open>NaN\<close>.
  Those results are values of \<open>jsnum\<close>, and the arithmetic that consumes them follows
  IEEE 754 (without rounding and without negative zero, which no modelled input produces).
\<close>

datatype jsnum = Fin real | PInf | NInf | NaN

fun js_div :: "real \<Rightarrow> real \<Rightarrow> jsnum" where
  "js_div a b =
     (if b = 0 then (if a = 0 then NaN else if 0 < a then PInf else NInf)
      else Fin (a / b))"


fun num_add :: "jsnum \<Rightarrow> jsnum \<Rightarrow> jsnum" where
  "num_add NaN _ = NaN"
| "num_add _ NaN = NaN"
| "num_add (Fin a) (Fin b) = Fin (a + b)"
| "num_add PInf NInf = NaN"
| "num_add NInf PInf = NaN"
| "num_add PInf _ = PInf"
| "num_add NInf _ = NInf"
| "num_add (Fin a) PInf = PInf"
| "num_add (Fin a) NInf = NInf"


fun inf_signed :: "bool \<Rightarrow> jsnum" where
  "inf_signed positive = (if positive then PInf else NInf)"

fun num_mul :: "jsnum \<Rightarrow> jsnum \<Rightarrow> jsnum" where
  "num_mul NaN _ = NaN"
| "num_mul _ NaN = NaN"
| "num_mul (Fin a) (Fin b) = Fin (a * b)"
| "num_mul PInf (Fin b) = (if b = 0 then NaN else inf_signed (0 < b))"
| "num_mul NInf (Fin b) = (if b = 0 then NaN else inf_signed (b < 0))"
| "num_mul (Fin a) PInf = (if a = 0 then NaN else inf_signed (0 < a))"
| "num_mul (Fin a) NInf = (if a = 0 then NaN else inf_signed (a < 0))"
| "num_mul PInf PInf = PInf"
| "num_mul NInf NInf = PInf"
| "num_mul PInf NInf = NInf"
| "num_mul NInf PInf = NInf"

fun num_div :: "jsnum \<Rightarrow> jsnum \<Rightarrow> jsnum" where
  "num_div NaN _ = NaN"
| "num_div _ NaN = NaN"
| "num_div (Fin a) (Fin b) = js_div a b"
| "num_div (Fin a) PInf = Fin 0"
| "num_div (Fin a) NInf = Fin 0"
| "num_div PInf (Fin b) = inf_signed (0 \<le> b)"
| "num_div NInf (Fin b) = inf_signed (b < 0)"
| "num_div PInf PInf = NaN"
| "num_div PInf NInf = NaN"
| "num_div NInf PInf = NaN"
| "num_div NInf NInf = NaN"

text \<open>\<open>Math.min\<close> and \<open>Math.max\<close>: \<open>NaN\<close> when an argument is \<open>NaN\<close>.\<close>

fun num_min :: "jsnum \<Rightarrow> jsnum \<Rightarrow> jsnum" where
  "num_min NaN _ = NaN"
| "num_min _ NaN = NaN"
| "num_min NInf _ = NInf"
| "num_min _ NInf = NInf"
| "num_min PInf b = b"
| "num_min a PInf = a"
| "num_min (Fin a) (Fin b) = Fin (min a b)"


fun num_abs :: "jsnum \<Rightarrow> jsnum" where
  "num_abs (Fin a) = Fin \<bar>a\<bar>"
| "num_abs PInf = PInf"
| "num_abs NInf = PInf"
| "num_abs NaN = NaN"

text \<open>The comparison \<open>a > b\<close>: false when an operand is \<open>NaN\<close>.\<close>

fun num_gt :: "jsnum \<Rightarrow> jsnum \<Rightarrow> bool" where
  "num_gt NaN _ = False"
| "num_gt _ NaN = False"
| "num_gt (Fin a) (Fin b) = (b < a)"
| "num_gt PInf PInf = False"
| "num_gt PInf _ = True"
| "num_gt NInf _ = False"
| "num_gt (Fin a) PInf = False"
| "num_gt (Fin a) NInf = True"

section \<open>The random source\<close>

text \<open>
  \<open>Math.random\<close> is modelled by the list of the values it returns next (each in
  \<open>[0, 1)\<close>). A draw takes the head of the list; \<open>None\<close> says the list is used up,
  so a function that draws returns an option.
\<close>

type_synonym rng = "real list"

fun rng_random :: "rng \<Rightarrow> (real \<times> rng) option" where
  "rng_random [] = None"
| "rng_random (u # us) = Some (u, us)"

text \<open>The loop \<open>while (u === 0) u = this.random()\<close>, started at \<open>u = 0\<close>.\<close>

fun draw_nonzero :: "rng \<Rightarrow> (real \<times> rng) option" where
  "draw_nonzero [] = None"
| "draw_nonzero (u # us) = (if u = 0 then draw_nonzero us else Some (u, us))"

text \<open>
  The Box-Muller value \<open>Math.sqrt(-2.0 * Math.log(u)) * Math.cos(2.0 * Math.PI * v)\<close>
  of two draws.
\<close>

definition box_muller :: "real \<Rightarrow> real \<Rightarrow> real" where
  "box_muller u v = sqrt (- 2 * ln u) * cos (2 * pi * v)"

definition gaussianRandom :: "real \<Rightarrow> real \<Rightarrow> rng \<Rightarrow> (real \<times> rng) option" where
  "gaussianRandom mean stdDev tape =
     (case draw_nonzero tape of
        None \<Rightarrow> None
      | Some (u, tape1) \<Rightarrow>
          (case draw_nonzero tape1 of
             None \<Rightarrow> None
           | Some (v, tape2) \<Rightarrow>
               (let z = box_muller u v
                in Some (z * stdDev + mean, tape2))))"

text \<open>The number of non-zero values among the coming draws.\<close>

definition nonzero_draws :: "rng \<Rightarrow> nat" where
  "nonzero_draws tape = length (filter (\<lambda>u. u \<noteq> 0) tape)"

section \<open>Mouse paths\<close>

record IPoint =
  px :: real
  py :: real














section \<open>The behaviour randomizer\<close>

text \<open>
  \<open>new Date()\<close> and \<open>Date.now()\<close> are an argument \<open>now\<close> (milliseconds) of each
  operation. Log calls have no effect on the state and are left out, and so are the
  display strings of a variation record (\<open>originalAction\<close>, \<open>modifiedAction\<close>), which
  no code reads; \<open>description\<close> keeps the template that was used. A session's
  \<open>characteristics\<close> and an event's \<open>metadata\<close> are read by none of the modelled
  functions and are left out as well.
\<close>

datatype RandomizationStrategy = SUBTLE | MODERATE | NATURAL | CHAOTIC

record IBehaviorPatternConfig =
  strategy :: RandomizationStrategy
  rhythmicVariation :: real
  errorSimulation :: real
  attentionDrift :: real
  fatigueProgression :: real
  microAdjustments :: real

datatype BehaviorVariationType =
  TIMING_OFFSET | SPATIAL_DEVIATION | SEQUENCE_REVERSAL | EXTRA_PAUSE
  | DOUBLE_TAP | MISCLICK | CORRECTION_MOVE

datatype description_text =
  RhythmAdjustment
  | AttentionLevelImpact real
  | FatigueLevelImpact real
  | StrategyRandomization RandomizationStrategy
  | SwappedPositions nat nat
  | OmittedPosition nat
  | DuplicatedPosition nat

record IBehaviorVariation =
  vtype :: BehaviorVariationType
  vtimestamp :: real
  severity :: jsnum
  description :: description_text

record IInputSession =
  session_id :: string
  startTime :: real
  endTime :: "real option"
  operationCount :: nat
  errorCount :: nat
  fatigueLevel :: real

record IAttentionState =
  level :: real
  focusPoint :: "IPoint option"
  driftVector :: IPoint
  lastFocusChange :: real

text \<open>A helper returns \<open>variation: null as any\<close> on some paths: \<open>None\<close>.\<close>

record operation_entry =
  op_timestamp :: real
  operation :: string
  baseTiming :: real
  actualTiming :: real
  op_variations :: "IBehaviorVariation option list"

record BehaviorRandomizer =
  config :: IBehaviorPatternConfig
  session :: IInputSession
  variations :: "IBehaviorVariation list"
  attentionState :: IAttentionState
  operationHistory :: "operation_entry list"
  random :: rng

record offset_result =
  offset :: real
  variation :: "IBehaviorVariation option"

record delay_context =
  operationType :: "string option"
  complexity :: "real option"
  importance :: "real option"

record delay_result =
  delay :: real
  delay_variations :: "IBehaviorVariation option list"

definition default_pattern_config :: IBehaviorPatternConfig where
  "default_pattern_config =
     \<lparr> strategy = MODERATE, rhythmicVariation = 0.3, errorSimulation = 0.02,
       attentionDrift = 0.2, fatigueProgression = 0.1, microAdjustments = 0.15 \<rparr>"

text \<open>
  The constructor, given the session, the merged configuration, the time of the call and
  the values \<open>Math.random\<close> is going to return.
\<close>

definition new_BehaviorRandomizer ::
  "IInputSession \<Rightarrow> IBehaviorPatternConfig \<Rightarrow> real \<Rightarrow> rng \<Rightarrow> BehaviorRandomizer" where
  "new_BehaviorRandomizer s cfg now tape =
     \<lparr> config = cfg, session = s, variations = [],
       attentionState = \<lparr> level = 0.8, focusPoint = None,
                          driftVector = \<lparr>px = 0, py = 0\<rparr>, lastFocusChange = now \<rparr>,
       operationHistory = [], random = tape \<rparr>"

text \<open>\<open>xs.slice(-n)\<close>: the last \<open>n\<close> elements.\<close>

definition slice_last :: "nat \<Rightarrow> 'a list \<Rightarrow> 'a list" where
  "slice_last n xs = drop (length xs - n) xs"

definition calculateVariance :: "real list \<Rightarrow> real" where
  "calculateVariance values =
     (if length values = 0 then 0
      else
        (let mean = sum_list values / real (length values);
             squaredDifferences = map (\<lambda>value. (value - mean) ^ 2) values
         in sum_list squaredDifferences / real (length values)))"

definition push_variation :: "IBehaviorVariation \<Rightarrow> BehaviorRandomizer \<Rightarrow> BehaviorRandomizer" where
  "push_variation v st = st\<lparr>variations := variations st @ [v]\<rparr>"

definition applyRhythmicVariation ::
  "BehaviorRandomizer \<Rightarrow> real \<Rightarrow> real \<Rightarrow> (offset_result \<times> BehaviorRandomizer) option" where
  "applyRhythmicVariation st baseDelay now =
     (if rhythmicVariation (config st) = 0 then Some (\<lparr>offset = 0, variation = None\<rparr>, st)
      else
        (let recentDelays = map actualTiming (slice_last 10 (operationHistory st));
             drawn =
               (if 3 \<le> length recentDelays then
                  (let avgDelay = sum_list recentDelays / real (length recentDelays);
                       variance = calculateVariance recentDelays
                   in if variance < avgDelay * 0.3 then
                        (case rng_random (random st) of
                           None \<Rightarrow> None
                         | Some (u, tape) \<Rightarrow>
                             Some ((u - 0.5) * baseDelay * rhythmicVariation (config st) * 0.5, tape))
                      else Some (0, random st))
                else
                  (case rng_random (random st) of
                     None \<Rightarrow> None
                   | Some (u, tape) \<Rightarrow>
                       Some ((u - 0.5) * baseDelay * rhythmicVariation (config st), tape)))
         in case drawn of
              None \<Rightarrow> None
            | Some (rhythmicOffset, tape) \<Rightarrow>
                (let v = \<lparr> vtype = TIMING_OFFSET, vtimestamp = now,
                           severity = num_abs (js_div rhythmicOffset baseDelay),
                           description = RhythmAdjustment \<rparr>
                 in Some (\<lparr>offset = rhythmicOffset, variation = Some v\<rparr>,
                          push_variation v (st\<lparr>random := tape\<rparr>)))))"

definition applyAttentionImpact ::
  "BehaviorRandomizer \<Rightarrow> real \<Rightarrow> real \<Rightarrow> (offset_result \<times> BehaviorRandomizer) option" where
  "applyAttentionImpact st baseDelay now =
     (let attentionImpact = (1 - level (attentionState st)) * attentionDrift (config st)
      in case rng_random (random st) of
           None \<Rightarrow> None
         | Some (u, tape) \<Rightarrow>
             (let off = baseDelay * attentionImpact * (u - 0.5) * 0.4;
                  v = \<lparr> vtype = EXTRA_PAUSE, vtimestamp = now,
                        severity = num_abs (js_div off baseDelay),
                        description = AttentionLevelImpact (level (attentionState st)) \<rparr>
              in Some (\<lparr>offset = off, variation = Some v\<rparr>,
                       push_variation v (st\<lparr>random := tape\<rparr>))))"

definition applyFatigueImpact ::
  "BehaviorRandomizer \<Rightarrow> real \<Rightarrow> real \<Rightarrow> (offset_result \<times> BehaviorRandomizer) option" where
  "applyFatigueImpact st baseDelay now =
     (let fatigueFactor = fatigueLevel (session st) * fatigueProgression (config st)
      in case rng_random (random st) of
           None \<Rightarrow> None
         | Some (u, tape) \<Rightarrow>
             (let off = baseDelay * fatigueFactor * (0.5 + u * 0.5);
                  v = \<lparr> vtype = EXTRA_PAUSE, vtimestamp = now,
                        severity = js_div off baseDelay,
                        description = FatigueLevelImpact (fatigueLevel (session st)) \<rparr>
              in Some (\<lparr>offset = off, variation = Some v\<rparr>,
                       push_variation v (st\<lparr>random := tape\<rparr>))))"

fun strategy_spread :: "RandomizationStrategy \<Rightarrow> real" where
  "strategy_spread SUBTLE = 0.05"
| "strategy_spread MODERATE = 0.15"
| "strategy_spread NATURAL = 0.25"
| "strategy_spread CHAOTIC = 0.4"

definition applyStrategicRandomization ::
  "BehaviorRandomizer \<Rightarrow> real \<Rightarrow> delay_context \<Rightarrow> real
     \<Rightarrow> (offset_result \<times> BehaviorRandomizer) option" where
  "applyStrategicRandomization st baseDelay context now =
     (case gaussianRandom 0 (baseDelay * strategy_spread (strategy (config st))) (random st) of
        None \<Rightarrow> None
      | Some (off, tape) \<Rightarrow>
          (let v = \<lparr> vtype = TIMING_OFFSET, vtimestamp = now,
                     severity = num_abs (js_div off baseDelay),
                     description = StrategyRandomization (strategy (config st)) \<rparr>
           in Some (\<lparr>offset = off, variation = Some v\<rparr>,
                    push_variation v (st\<lparr>random := tape\<rparr>))))"

text \<open>
  One contributor of \<open>randomizeDelay\<close>: \<open>if (r.offset !== 0) { adjustedDelay += r.offset;
  variations.push(r.variation) }\<close>.
\<close>

definition add_contribution ::
  "offset_result \<Rightarrow> real \<times> IBehaviorVariation option list
     \<Rightarrow> real \<times> IBehaviorVariation option list" where
  "add_contribution r acc =
     (if offset r \<noteq> 0 then (fst acc + offset r, snd acc @ [variation r]) else acc)"

text \<open>\<open>context.operationType || 'unknown'\<close>: the empty string is falsy.\<close>

definition operation_name :: "string option \<Rightarrow> string" where
  "operation_name t = (case t of None \<Rightarrow> ''unknown'' | Some s \<Rightarrow> if s = [] then ''unknown'' else s)"

definition randomizeDelay ::
  "BehaviorRandomizer \<Rightarrow> real \<Rightarrow> delay_context \<Rightarrow> real
     \<Rightarrow> (delay_result \<times> BehaviorRandomizer) option" where
  "randomizeDelay st baseDelay context now =
     (case applyRhythmicVariation st baseDelay now of
        None \<Rightarrow> None
      | Some (rhythmic, st1) \<Rightarrow>
     (case applyAttentionImpact st1 baseDelay now of
        None \<Rightarrow> None
      | Some (attentionImpact, st2) \<Rightarrow>
     (case applyFatigueImpact st2 baseDelay now of
        None \<Rightarrow> None
      | Some (fatigueImpact, st3) \<Rightarrow>
     (case applyStrategicRandomization st3 baseDelay context now of
        None \<Rightarrow> None
      | Some (strategic, st4) \<Rightarrow>
          (let acc = add_contribution strategic
                       (add_contribution fatigueImpact
                         (add_contribution attentionImpact
                           (add_contribution rhythmic (baseDelay, []))));
               minDelay = baseDelay * 0.3;
               maxDelay = baseDelay * 3.0;
               adjustedDelay = max minDelay (min maxDelay (fst acc));
               entry = \<lparr> op_timestamp = now,
                         operation = operation_name (operationType context),
                         baseTiming = baseDelay,
                         actualTiming = adjustedDelay,
                         op_variations = snd acc \<rparr>;
               history = operationHistory st4 @ [entry];
               history' = (if 1000 < length history then drop 500 history else history)
           in Some (\<lparr>delay = adjustedDelay, delay_variations = snd acc\<rparr>,
                    st4\<lparr>operationHistory := history'\<rparr>))))))"

text \<open>
  The four contributors of a call of \<open>randomizeDelay\<close>, in the order of their calls
  (rhythmic, attention, fatigue, strategic), and the records they carry.
\<close>

definition delay_contributions ::
  "BehaviorRandomizer \<Rightarrow> real \<Rightarrow> delay_context \<Rightarrow> real
     \<Rightarrow> (offset_result list \<times> BehaviorRandomizer) option" where
  "delay_contributions st baseDelay context now =
     (case applyRhythmicVariation st baseDelay now of
        None \<Rightarrow> None
      | Some (rhythmic, st1) \<Rightarrow>
     (case applyAttentionImpact st1 baseDelay now of
        None \<Rightarrow> None
      | Some (attentionImpact, st2) \<Rightarrow>
     (case applyFatigueImpact st2 baseDelay now of
        None \<Rightarrow> None
      | Some (fatigueImpact, st3) \<Rightarrow>
     (case applyStrategicRandomization st3 baseDelay context now of
        None \<Rightarrow> None
      | Some (strategic, st4) \<Rightarrow>
          Some ([rhythmic, attentionImpact, fatigueImpact, strategic], st4)))))"

definition records_of :: "offset_result list \<Rightarrow> IBehaviorVariation list" where
  "records_of cs = concat (map (\<lambda>x. case variation x of None \<Rightarrow> [] | Some v \<Rightarrow> [v]) cs)"

subsection \<open>Operation sequences\<close>

record sequence_context =
  seq_operationType :: "string option"
  allowReordering :: "bool option"
  allowOmission :: "bool option"
  allowDuplication :: "bool option"

text \<open>An optional boolean in a condition: \<open>undefined\<close> is falsy.\<close>

fun truthy :: "bool option \<Rightarrow> bool" where
  "truthy None = False"
| "truthy (Some b) = b"

text \<open>\<open>Math.floor(this.random() * sequence.length)\<close>.\<close>

definition random_index :: "real \<Rightarrow> nat \<Rightarrow> nat" where
  "random_index u n = nat \<lfloor>u * real n\<rfloor>"

text \<open>The loop \<open>while (index2 === index1) index2 = Math.floor(this.random() * length)\<close>.\<close>

fun draw_other_index :: "nat \<Rightarrow> nat \<Rightarrow> nat \<Rightarrow> rng \<Rightarrow> (nat \<times> rng) option" where
  "draw_other_index index1 index2 n tape =
     (if index2 \<noteq> index1 then Some (index2, tape)
      else (case tape of
              [] \<Rightarrow> None
            | u # us \<Rightarrow> draw_other_index index1 (random_index u n) n us))"

text \<open>
  The three helpers return the sequence and \<open>variation: null\<close> (\<open>None\<close>) without a draw
  when the sequence is too short. A random index is in range for a draw in \<open>[0, 1)\<close>.
\<close>

definition reorderSequence ::
  "BehaviorRandomizer \<Rightarrow> 'a list \<Rightarrow> real
     \<Rightarrow> (('a list \<times> IBehaviorVariation option) \<times> BehaviorRandomizer) option" where
  "reorderSequence st sequence now =
     (if length sequence < 2 then Some ((sequence, None), st)
      else
        (case rng_random (random st) of
           None \<Rightarrow> None
         | Some (u1, tape1) \<Rightarrow>
        (case rng_random tape1 of
           None \<Rightarrow> None
         | Some (u2, tape2) \<Rightarrow>
             (let index1 = random_index u1 (length sequence)
              in case draw_other_index index1 (random_index u2 (length sequence))
                        (length sequence) tape2 of
                   None \<Rightarrow> None
                 | Some (index2, tape3) \<Rightarrow>
                     (let newSequence =
                            (sequence[index1 := sequence ! index2])[index2 := sequence ! index1];
                          v = \<lparr> vtype = SEQUENCE_REVERSAL, vtimestamp = now,
                                severity = Fin 0.3,
                                description = SwappedPositions index1 index2 \<rparr>
                      in Some ((newSequence, Some v),
                               push_variation v (st\<lparr>random := tape3\<rparr>)))))))"

definition omitOperation ::
  "BehaviorRandomizer \<Rightarrow> 'a list \<Rightarrow> real
     \<Rightarrow> (('a list \<times> IBehaviorVariation option) \<times> BehaviorRandomizer) option" where
  "omitOperation st sequence now =
     (if length sequence = 0 then Some ((sequence, None), st)
      else
        (case rng_random (random st) of
           None \<Rightarrow> None
         | Some (u, tape) \<Rightarrow>
             (let omitIndex = random_index u (length sequence);
                  newSequence = take omitIndex sequence @ drop (Suc omitIndex) sequence;
                  v = \<lparr> vtype = SEQUENCE_REVERSAL, vtimestamp = now,
                        severity = Fin 0.5,
                        description = OmittedPosition omitIndex \<rparr>
              in Some ((newSequence, Some v), push_variation v (st\<lparr>random := tape\<rparr>)))))"

definition duplicateOperation ::
  "BehaviorRandomizer \<Rightarrow> 'a list \<Rightarrow> real
     \<Rightarrow> (('a list \<times> IBehaviorVariation option) \<times> BehaviorRandomizer) option" where
  "duplicateOperation st sequence now =
     (if length sequence = 0 then Some ((sequence, None), st)
      else
        (case rng_random (random st) of
           None \<Rightarrow> None
         | Some (u, tape) \<Rightarrow>
             (let duplicateIndex = random_index u (length sequence);
                  newSequence = take duplicateIndex sequence @ [sequence ! duplicateIndex]
                                @ drop duplicateIndex sequence;
                  v = \<lparr> vtype = DOUBLE_TAP, vtimestamp = now,
                        severity = Fin 0.4,
                        description = DuplicatedPosition duplicateIndex \<rparr>
              in Some ((newSequence, Some v), push_variation v (st\<lparr>random := tape\<rparr>)))))"

text \<open>
  One gated step of \<open>randomizeOperationSequence\<close>: \<open>if (allow && this.shouldX()) { r =
  this.x(seq); seq = r.sequence; variations.push(r.variation) }\<close>. The \<open>&&\<close> draws only
  when \<open>allow\<close> is truthy; \<open>shouldX\<close> is \<open>this.random() < probability\<close>.
\<close>

definition gated_step ::
  "bool option \<Rightarrow> real
     \<Rightarrow> (BehaviorRandomizer \<Rightarrow> 'a list \<Rightarrow> real
          \<Rightarrow> (('a list \<times> IBehaviorVariation option) \<times> BehaviorRandomizer) option)
     \<Rightarrow> real
     \<Rightarrow> ('a list \<times> IBehaviorVariation option list) \<times> BehaviorRandomizer
     \<Rightarrow> (('a list \<times> IBehaviorVariation option list) \<times> BehaviorRandomizer) option" where
  "gated_step allow probability helper now acc =
     (case acc of ((adjustedSequence, vars), st) \<Rightarrow>
        if truthy allow then
          (case rng_random (random st) of
             None \<Rightarrow> None
           | Some (u, tape) \<Rightarrow>
               if u < probability then
                 (case helper (st\<lparr>random := tape\<rparr>) adjustedSequence now of
                    None \<Rightarrow> None
                  | Some ((newSequence, v), st') \<Rightarrow> Some ((newSequence, vars @ [v]), st'))
               else Some ((adjustedSequence, vars), st\<lparr>random := tape\<rparr>))
        else Some acc)"

definition randomizeOperationSequence ::
  "BehaviorRandomizer \<Rightarrow> 'a list \<Rightarrow> sequence_context \<Rightarrow> real
     \<Rightarrow> (('a list \<times> IBehaviorVariation option list) \<times> BehaviorRandomizer) option" where
  "randomizeOperationSequence st sequence context now =
     (case gated_step (allowReordering context) 0.05 reorderSequence now ((sequence, []), st) of
        None \<Rightarrow> None
      | Some acc1 \<Rightarrow>
     (case gated_step (allowOmission context) 0.02 omitOperation now acc1 of
        None \<Rightarrow> None
      | Some acc2 \<Rightarrow>
          gated_step (allowDuplication context) 0.01 duplicateOperation now acc2))"

section \<open>The safety monitor\<close>

text \<open>
  An alert keeps its level, type and timestamp; its random id, message and details are
  display data that no code reads back. The emergency-stop callback is a function of the
  caller: the monitor state records whether one is registered, and \<open>callback_trace\<close>
  lists its invocations in order, each with the function whose body made the call.
  The periodic timer is the caller of \<open>performSafetyCheck\<close>; the state records only
  whether it is armed. No modelled statement raises, so the \<open>try/catch\<close> blocks have
  no second branch.
\<close>

datatype SafetyAlertLevel = INFO | WARNING | CRITICAL | EMERGENCY

datatype SafetyAlertType =
  EXCESSIVE_USAGE | REPETITIVE_PATTERN | UNNATURAL_TIMING | FATIGUE_DETECTED
  | SUSPICIOUS_BEHAVIOR | CONFIGURATION_ERROR | SYSTEM_ANOMALY | GAME_WINDOW_LOST

record ISafetyAlert =
  alert_level :: SafetyAlertLevel
  alert_type :: SafetyAlertType
  alert_timestamp :: real

record ISafetyRuleConfig =
  maxSessionDuration :: real
  maxContinuousOperations :: real
  requiredRestInterval :: real
  maxRepetitivePatternLength :: real
  maxTimingVariance :: real
  minHumanLikenessScore :: real
  fatigueThreshold :: real
  fatigueDecayRate :: real
  maxErrorRate :: real
  safetyCheckInterval :: real
  enableEmergencyStop :: bool
  requireUserConfirmation :: bool

datatype event_type = mouse_move | mouse_click | key_press | key_release

record IInputEvent =
  event_id :: string
  etype :: event_type
  timestamp :: real
  position :: "IPoint option"
  key :: "string option"
  duration :: real
  confidence :: real

record IExtendedUsageStats =
  sessionStartTime :: real
  totalUsageTime :: real
  operationCount_u :: nat
  restPeriods :: nat
  lastRestTime :: "real option"
  sessionDurations :: "real list"
  operationIntervals :: "real list"
  errorPatterns :: "string \<rightharpoonup> nat"
  alertHistory :: "ISafetyAlert list"
  lastSafetyCheck :: real

record IBehaviorPatternAnalysis =
  isRepetitive :: bool
  patternLength :: nat
  patternStrength :: real
  variability :: real
  naturalness :: real

datatype call_site = InCreateAlert | InCheckSessionDuration

record SafetyMonitor =
  sm_config :: ISafetyRuleConfig
  alerts :: "ISafetyAlert list"
  usageStats :: IExtendedUsageStats
  inputHistory :: "IInputEvent list"
  sessionHistory :: "IInputSession list"
  isActive :: bool
  safetyCheckTimer :: bool
  emergencyStopCallback :: bool
  callback_trace :: "call_site list"

definition default_config :: ISafetyRuleConfig where
  "default_config =
     \<lparr> maxSessionDuration = 240, maxContinuousOperations = 1000, requiredRestInterval = 30,
       maxRepetitivePatternLength = 5, maxTimingVariance = 0.3, minHumanLikenessScore = 0.7,
       fatigueThreshold = 0.8, fatigueDecayRate = 0.1, maxErrorRate = 0.1,
       safetyCheckInterval = 60, enableEmergencyStop = True, requireUserConfirmation = True \<rparr>"

text \<open>The constructor, given the merged configuration and the time of the call.\<close>

definition new_SafetyMonitor :: "ISafetyRuleConfig \<Rightarrow> real \<Rightarrow> SafetyMonitor" where
  "new_SafetyMonitor cfg now =
     \<lparr> sm_config = cfg, alerts = [],
       usageStats = \<lparr> sessionStartTime = now, totalUsageTime = 0, operationCount_u = 0,
                      restPeriods = 0, lastRestTime = None, sessionDurations = [],
                      operationIntervals = [], errorPatterns = Map.empty,
                      alertHistory = [], lastSafetyCheck = now \<rparr>,
       inputHistory = [], sessionHistory = [], isActive = False,
       safetyCheckTimer = False, emergencyStopCallback = False, callback_trace = [] \<rparr>"

definition startMonitoring :: "SafetyMonitor \<Rightarrow> bool \<Rightarrow> SafetyMonitor" where
  "startMonitoring st callback =
     (if isActive st then st
      else st\<lparr>isActive := True, emergencyStopCallback := callback, safetyCheckTimer := True\<rparr>)"

definition stopMonitoring :: "SafetyMonitor \<Rightarrow> SafetyMonitor" where
  "stopMonitoring st =
     (if isActive st then st\<lparr>isActive := False, safetyCheckTimer := False\<rparr> else st)"

definition createAlert ::
  "SafetyMonitor \<Rightarrow> SafetyAlertLevel \<Rightarrow> SafetyAlertType \<Rightarrow> bool \<Rightarrow> real \<Rightarrow> SafetyMonitor" where
  "createAlert st lvl ty triggerEmergencyStop now =
     (let alert = \<lparr> alert_level = lvl, alert_type = ty, alert_timestamp = now \<rparr>;
          st1 = st\<lparr> alerts := alerts st @ [alert],
                    usageStats := (usageStats st)\<lparr>alertHistory :=
                                     alertHistory (usageStats st) @ [alert]\<rparr> \<rparr>;
          st2 = (if triggerEmergencyStop \<and> enableEmergencyStop (sm_config st1)
                    \<and> emergencyStopCallback st1
                 then st1\<lparr>callback_trace := callback_trace st1 @ [InCreateAlert]\<rparr>
                 else st1)
      in if 1000 < length (alerts st2) then st2\<lparr>alerts := drop 500 (alerts st2)\<rparr> else st2)"

definition performRealTimeSafetyCheck :: "SafetyMonitor \<Rightarrow> IInputEvent \<Rightarrow> real \<Rightarrow> SafetyMonitor" where
  "performRealTimeSafetyCheck st event now =
     (let st1 = (if confidence event < minHumanLikenessScore (sm_config st)
                 then createAlert st WARNING UNNATURAL_TIMING False now
                 else st)
      in if 2 \<le> length (inputHistory st1) then
           (let previousEvent = inputHistory st1 ! (length (inputHistory st1) - 2);
                interval = timestamp event - timestamp previousEvent;
                st2 = st1\<lparr>usageStats := (usageStats st1)\<lparr>operationIntervals :=
                             operationIntervals (usageStats st1) @ [interval]\<rparr>\<rparr>
            in if interval < 50 then createAlert st2 INFO SUSPICIOUS_BEHAVIOR False now
               else st2)
         else st1)"

definition recordInputEvent :: "SafetyMonitor \<Rightarrow> IInputEvent \<Rightarrow> real \<Rightarrow> SafetyMonitor" where
  "recordInputEvent st event now =
     (if isActive st then
        (let history = inputHistory st @ [event];
             st1 = st\<lparr> inputHistory := history,
                       usageStats := (usageStats st)\<lparr>operationCount_u :=
                                        operationCount_u (usageStats st) + 1\<rparr> \<rparr>;
             st2 = (if 10000 < length (inputHistory st1)
                    then st1\<lparr>inputHistory := drop 5000 (inputHistory st1)\<rparr>
                    else st1)
         in performRealTimeSafetyCheck st2 event now)
      else st)"

definition recordSession :: "SafetyMonitor \<Rightarrow> IInputSession \<Rightarrow> real \<Rightarrow> SafetyMonitor" where
  "recordSession st s now =
     (let sessionDuration = (case endTime s of Some e \<Rightarrow> e - startTime s
                                             | None \<Rightarrow> now - startTime s);
          stats = usageStats st;
          stats1 = stats\<lparr> sessionDurations := sessionDurations stats @ [sessionDuration],
                          totalUsageTime := totalUsageTime stats + sessionDuration \<rparr>;
          stats2 = (if 0 < errorCount s
                    then stats1\<lparr>errorPatterns := (errorPatterns stats1)(session_id s \<mapsto> errorCount s)\<rparr>
                    else stats1);
          history = sessionHistory st @ [s];
          history' = (if 100 < length history then drop 50 history else history)
      in st\<lparr>sessionHistory := history', usageStats := stats2\<rparr>)"

subsection \<open>Pattern analysis\<close>

definition patternsEqual :: "'a list \<Rightarrow> 'a list \<Rightarrow> bool" where
  "patternsEqual pattern1 pattern2 =
     (if length pattern1 = length pattern2
      then list_all (\<lambda>i. pattern1 ! i = pattern2 ! i) [0 ..< length pattern1]
      else False)"

text \<open>\<open>sequence.slice(start, end)\<close>.\<close>

definition slice :: "nat \<Rightarrow> nat \<Rightarrow> 'a list \<Rightarrow> 'a list" where
  "slice start end' xs = take (end' - start) (drop start xs)"

text \<open>
  \<open>sequence.length % patternLength\<close> is \<open>NaN\<close> for a zero pattern length, and
  \<open>NaN !== 0\<close> holds.
\<close>

definition isPatternRepeating :: "'a list \<Rightarrow> nat \<Rightarrow> bool" where
  "isPatternRepeating sequence len =
     (if len = 0 then False
      else if length sequence mod len = 0 then
        (let pattern = slice 0 len sequence;
             repetitions = length sequence div len
         in list_all (\<lambda>i. patternsEqual pattern (slice (i * len) (i * len + len) sequence))
              [1 ..< repetitions])
      else False)"

text \<open>
  \<open>for (length = 2; length <= Math.min(sequence.length / 2, 10); length++)\<close>, returning
  the first length whose pattern repeats and 0 when there is none.
\<close>

definition detectRepeatingPattern :: "'a list \<Rightarrow> nat" where
  "detectRepeatingPattern sequence =
     (let maxPatternLength = min (real (length sequence) / 2) 10
      in case find (isPatternRepeating sequence) [2 ..< nat \<lfloor>maxPatternLength\<rfloor> + 1] of
           Some len \<Rightarrow> len
         | None \<Rightarrow> 0)"

definition calculatePatternStrength :: "'a list \<Rightarrow> nat \<Rightarrow> real" where
  "calculatePatternStrength sequence len = min 1 (real len / 5)"

definition calculateVariability :: "real list \<Rightarrow> real" where
  "calculateVariability values =
     (if length values < 2 then 1
      else
        (let mean = sum_list values / real (length values);
             variance = sum_list (map (\<lambda>val. (val - mean) ^ 2) values) / real (length values);
             stdDev = sqrt variance
         in if 0 < mean then stdDev / mean else 1))"

definition calculateTimingVariability :: "IInputEvent list \<Rightarrow> real" where
  "calculateTimingVariability events =
     (if length events < 2 then 0.5
      else
        (let intervals = map (\<lambda>i. timestamp (events ! i) - timestamp (events ! (i - 1)))
                           [1 ..< length events]
         in min 1 (calculateVariability intervals * 2)))"

text \<open>
  The \<open>Map\<close> of type counts holds one entry per type that occurs. The only caller,
  \<open>calculateNaturalness\<close>, passes a non-empty list, so there is at least one type and
  every probability is positive.
\<close>

definition calculateTypeDiversity :: "IInputEvent list \<Rightarrow> real" where
  "calculateTypeDiversity events =
     (let types = map etype events;
          typeCounts = map (\<lambda>t. count_list types t) (remdups types);
          totalEvents = length events;
          entropy = fold (\<lambda>count e.
                            (let probability = real count / real totalEvents
                             in if 0 < probability then e - probability * log 2 probability
                                else e))
                      typeCounts 0;
          maxEntropy = log 2 (real (length typeCounts))
      in if 0 < maxEntropy then entropy / maxEntropy else 0)"

definition calculateNaturalness :: "IInputEvent list \<Rightarrow> real" where
  "calculateNaturalness events =
     (if length events = 0 then 0
      else
        (let avgConfidence = sum_list (map confidence events) / real (length events);
             timingVariability = calculateTimingVariability events;
             typeDiversity = calculateTypeDiversity events
         in avgConfidence * 0.4 + timingVariability * 0.3 + typeDiversity * 0.3))"

definition analyzeBehaviorPatterns :: "SafetyMonitor \<Rightarrow> IBehaviorPatternAnalysis" where
  "analyzeBehaviorPatterns st =
     (if length (inputHistory st) < 10 then
        \<lparr> isRepetitive = False, patternLength = 0, patternStrength = 0,
          variability = 1, naturalness = 0.8 \<rparr>
      else
        (let recentEvents = slice_last 50 (inputHistory st);
             eventTypes = map etype recentEvents;
             durations = map duration recentEvents;
             len = detectRepeatingPattern eventTypes;
             repetitive = (2 < len);
             strength = (if repetitive then calculatePatternStrength eventTypes len else 0)
         in \<lparr> isRepetitive = repetitive, patternLength = len, patternStrength = strength,
              variability = calculateVariability durations,
              naturalness = calculateNaturalness recentEvents \<rparr>))"

subsection \<open>Fatigue and the safety score\<close>

definition calculateFatigueLevel :: "SafetyMonitor \<Rightarrow> real \<Rightarrow> jsnum" where
  "calculateFatigueLevel st now =
     (let sessionDuration = now - sessionStartTime (usageStats st);
          timeFatigue = num_min (Fin 1)
                          (js_div sessionDuration (maxSessionDuration (sm_config st) * 60 * 1000));
          fatigue1 = num_add (Fin 0) (num_mul timeFatigue (Fin 0.4));
          operationRate = js_div (real (operationCount_u (usageStats st))) (sessionDuration / 60000);
          rateFatigue = num_min (Fin 1) (num_div operationRate (Fin 20));
          fatigue2 = num_add fatigue1 (num_mul rateFatigue (Fin 0.3));
          recentSessions = slice_last 10 (sessionHistory st);
          fatigue3 =
            (if 0 < length recentSessions then
               (let totalErrors = sum_list (map errorCount recentSessions);
                    totalOperations = sum_list (map operationCount recentSessions);
                    errorRate = (if 0 < totalOperations
                                 then real totalErrors / real totalOperations else 0);
                    errorFatigue = num_min (Fin 1) (js_div errorRate (maxErrorRate (sm_config st)))
                in num_add fatigue2 (num_mul errorFatigue (Fin 0.3)))
             else fatigue2)
      in num_min (Fin 1) fatigue3)"

text \<open>The alerts of the last five minutes.\<close>

definition recent_alerts :: "SafetyMonitor \<Rightarrow> real \<Rightarrow> ISafetyAlert list" where
  "recent_alerts st now = filter (\<lambda>alert. now - alert_timestamp alert < 300000) (alerts st)"



subsection \<open>The periodic check\<close>

definition checkSessionDuration :: "SafetyMonitor \<Rightarrow> real \<Rightarrow> SafetyMonitor" where
  "checkSessionDuration st now =
     (let currentDuration = now - sessionStartTime (usageStats st);
          maxDuration = maxSessionDuration (sm_config st) * 60 * 1000
      in if maxDuration \<le> currentDuration then
           (let st1 = createAlert st CRITICAL EXCESSIVE_USAGE
                        (enableEmergencyStop (sm_config st)) now
            in if enableEmergencyStop (sm_config st1) \<and> emergencyStopCallback st1
               then st1\<lparr>callback_trace := callback_trace st1 @ [InCheckSessionDuration]\<rparr>
               else st1)
         else if maxDuration * 0.8 \<le> currentDuration then
           createAlert st WARNING EXCESSIVE_USAGE False now
         else st)"

text \<open>\<open>lastRestTime?.getTime() || sessionStartTime.getTime()\<close>: a time of 0 is falsy.\<close>

definition checkRestRequirement :: "SafetyMonitor \<Rightarrow> real \<Rightarrow> SafetyMonitor" where
  "checkRestRequirement st now =
     (let lastRest = (case lastRestTime (usageStats st) of
                        None \<Rightarrow> sessionStartTime (usageStats st)
                      | Some t \<Rightarrow> if t = 0 then sessionStartTime (usageStats st) else t);
          timeSinceLastRest = now - lastRest;
          requiredInterval = requiredRestInterval (sm_config st) * 60 * 1000
      in if requiredInterval \<le> timeSinceLastRest then
           (let st1 = createAlert st WARNING FATIGUE_DETECTED False now
            in st1\<lparr>usageStats := (usageStats st1)\<lparr> restPeriods := restPeriods (usageStats st1) + 1,
                                                   lastRestTime := Some now \<rparr>\<rparr>)
         else st)"

definition checkBehaviorPatterns :: "SafetyMonitor \<Rightarrow> real \<Rightarrow> SafetyMonitor" where
  "checkBehaviorPatterns st now =
     (let analysis = analyzeBehaviorPatterns st;
          st1 = (if isRepetitive analysis
                    \<and> maxRepetitivePatternLength (sm_config st) < real (patternLength analysis)
                 then createAlert st WARNING REPETITIVE_PATTERN False now
                 else st)
      in if naturalness analysis < 0.5
         then createAlert st1 CRITICAL SUSPICIOUS_BEHAVIOR (enableEmergencyStop (sm_config st1)) now
         else st1)"

definition checkFatigueLevel :: "SafetyMonitor \<Rightarrow> real \<Rightarrow> SafetyMonitor" where
  "checkFatigueLevel st now =
     (if num_gt (calculateFatigueLevel st now) (Fin (fatigueThreshold (sm_config st)))
      then createAlert st WARNING FATIGUE_DETECTED False now
      else st)"

definition checkSystemHealth :: "SafetyMonitor \<Rightarrow> real \<Rightarrow> SafetyMonitor" where
  "checkSystemHealth st now =
     (let st1 = (if 15000 < length (inputHistory st)
                 then createAlert st INFO SYSTEM_ANOMALY False now
                 else st)
      in if 10 < length (recent_alerts st1 now)
         then createAlert st1 WARNING SYSTEM_ANOMALY False now
         else st1)"

definition performSafetyCheck :: "SafetyMonitor \<Rightarrow> real \<Rightarrow> SafetyMonitor" where
  "performSafetyCheck st now =
     (let st0 = st\<lparr>usageStats := (usageStats st)\<lparr>lastSafetyCheck := now\<rparr>\<rparr>;
          st1 = checkSessionDuration st0 now;
          st2 = checkRestRequirement st1 now;
          st3 = checkBehaviorPatterns st2 now;
          st4 = checkFatigueLevel st3 now
      in checkSystemHealth st4 now)"

subsection \<open>The safety score as the specification words it\<close>



text \<open>
  The operations-per-minute rate and the recent error rate that the fatigue level is
  computed from: the quotients \<open>operationCount / (sessionDuration / 60000)\<close> and
  \<open>totalErrors / totalOperations\<close> over the last ten recorded sessions of
  \<open>calculateFatigueLevel\<close>, the latter 0 when no operation is recorded.
\<close>

definition operation_rate :: "SafetyMonitor \<Rightarrow> real \<Rightarrow> jsnum" where
  "operation_rate st now =
     js_div (real (operationCount_u (usageStats st)))
            ((now - sessionStartTime (usageStats st)) / 60000)"

definition recent_error_rate :: "SafetyMonitor \<Rightarrow> real" where
  "recent_error_rate st =
     (let recentSessions = slice_last 10 (sessionHistory st);
          totalErrors = sum_list (map errorCount recentSessions);
          totalOperations = sum_list (map operationCount recentSessions)
      in if 0 < totalOperations then real totalErrors / real totalOperations else 0)"

text \<open>
  The three terms of the fatigue level, before the weights 0.4 and 0.3 of the first two: the
  capped share of the maximal session duration, the capped operation rate over 20, and the
  weighted capped error rate, which is added only when a session is recorded.
\<close>

definition time_fatigue :: "SafetyMonitor \<Rightarrow> real \<Rightarrow> jsnum" where
  "time_fatigue st now =
     num_min (Fin 1) (js_div (now - sessionStartTime (usageStats st))
                             (maxSessionDuration (sm_config st) * 60 * 1000))"

definition rate_fatigue :: "jsnum \<Rightarrow> jsnum" where
  "rate_fatigue r = num_min (Fin 1) (num_div r (Fin 20))"

definition error_fatigue :: "SafetyMonitor \<Rightarrow> jsnum" where
  "error_fatigue st =
     (if 0 < length (slice_last 10 (sessionHistory st))
      then num_mul (num_min (Fin 1) (js_div (recent_error_rate st) (maxErrorRate (sm_config st))))
                   (Fin 0.3)
      else Fin 0)"

text \<open>The comparison \<open>a <= b\<close>: false when an operand is \<open>NaN\<close>.\<close>

fun num_le :: "jsnum \<Rightarrow> jsnum \<Rightarrow> bool" where
  "num_le NaN _ = False"
| "num_le _ NaN = False"
| "num_le (Fin a) (Fin b) = (a \<le> b)"
| "num_le NInf _ = True"
| "num_le _ PInf = True"
| "num_le PInf _ = False"
| "num_le (Fin a) NInf = False"

section \<open>Scenarios\<close>

text \<open>
  A monitor configured with a maximal session duration of one minute, created at time 0
  and started with an emergency-stop callback.
\<close>

definition one_minute_monitor :: SafetyMonitor where
  "one_minute_monitor =
     startMonitoring (new_SafetyMonitor (default_config\<lparr>maxSessionDuration := 1\<rparr>) 0) True"

text \<open>The same monitor when the periodic check has stamped its time at 61 seconds.\<close>

definition one_minute_monitor_stamped :: SafetyMonitor where
  "one_minute_monitor_stamped =
     one_minute_monitor\<lparr>usageStats := (usageStats one_minute_monitor)\<lparr>lastSafetyCheck := 61000\<rparr>\<rparr>"

text \<open>A started monitor that asks for a human-likeness of 0.9.\<close>

definition strict_monitor :: SafetyMonitor where
  "strict_monitor =
     startMonitoring (new_SafetyMonitor (default_config\<lparr>minHumanLikenessScore := 0.9\<rparr>) 0) False"

definition low_confidence_event :: IInputEvent where
  "low_confidence_event =
     \<lparr> event_id = ''e1'', etype = mouse_click, timestamp = 1000, position = None,
       key = None, duration = 80, confidence = 0.5 \<rparr>"

text \<open>A fresh session and a randomizer on it with the default configuration.\<close>

definition fresh_session :: IInputSession where
  "fresh_session =
     \<lparr> session_id = ''s1'', startTime = 0, endTime = None, operationCount = 0,
       errorCount = 0, fatigueLevel = 0 \<rparr>"

definition no_gates :: sequence_context where
  "no_gates =
     \<lparr> seq_operationType = None, allowReordering = None, allowOmission = Some False,
       allowDuplication = None \<rparr>"

text \<open>A monitor created at time 0 that has counted \<open>n\<close> operations.\<close>

definition monitor_with_operations :: "nat \<Rightarrow> SafetyMonitor" where
  "monitor_with_operations n =
     (new_SafetyMonitor default_config 0)
       \<lparr>usageStats := (usageStats (new_SafetyMonitor default_config 0))\<lparr>operationCount_u := n\<rparr>\<rparr>"

text \<open>
  A randomizer on the fresh session whose next draws are 1/2, 1/2, 1/2, 1/2 and 1/4, and a
  delay context without options.
\<close>

definition zero_offset_randomizer :: BehaviorRandomizer where
  "zero_offset_randomizer =
     new_BehaviorRandomizer fresh_session default_pattern_config 0 [1/2, 1/2, 1/2, 1/2, 1/4]"

definition plain_context :: delay_context where
  "plain_context = \<lparr> operationType = None, complexity = None, importance = None \<rparr>"





text \<open>
  A monitor configured with a maximal session duration of minus one minute, and a monitor
  configured with a maximal error rate of 0 that has recorded one session without errors.
\<close>

definition negative_duration_monitor :: SafetyMonitor where
  "negative_duration_monitor =
     new_SafetyMonitor (default_config\<lparr>maxSessionDuration := - 1\<rparr>) 0"

definition clean_session :: IInputSession where
  "clean_session =
     \<lparr> session_id = ''s0'', startTime = 0, endTime = Some 1000, operationCount = 5,
       errorCount = 0, fatigueLevel = 0 \<rparr>"

definition zero_error_rate_monitor :: SafetyMonitor where
  "zero_error_rate_monitor =
     recordSession (new_SafetyMonitor (default_config\<lparr>maxErrorRate := 0\<rparr>) 0)
       clean_session 1000"





section \<open>Recording events\<close>

lemma new_SafetyMonitor_inactive: "\<not> isActive (new_SafetyMonitor cfg t)"
  by (simp add: new_SafetyMonitor_def)

lemma stopMonitoring_inactive: "\<not> isActive (stopMonitoring st)"
  by (simp add: stopMonitoring_def)

text \<open>
  Claim C10. \<open>recordInputEvent\<close> on a monitor that is not active returns the state as it
  was: event history, operation count, operation intervals and alerts are unchanged and no
  alert is created, whatever the confidence of the event. A monitor is not active after
  its construction and after \<open>stopMonitoring\<close>.
\<close>

theorem recordInputEvent_inactive_noop:
  "(\<not> isActive st \<longrightarrow> recordInputEvent st event now = st)
   \<and> \<not> isActive (new_SafetyMonitor cfg t0)
   \<and> \<not> isActive (stopMonitoring st')"
  by (simp add: recordInputEvent_def new_SafetyMonitor_def stopMonitoring_def)

theorem recordInputEvent_inactive_noop_witness:
  "\<not> isActive (new_SafetyMonitor default_config 0)
   \<and> recordInputEvent (new_SafetyMonitor default_config 0) low_confidence_event 1000
       = new_SafetyMonitor default_config 0
   \<and> recordInputEvent (stopMonitoring strict_monitor) low_confidence_event 1000
       = stopMonitoring strict_monitor"
  using recordInputEvent_inactive_noop
          [of "new_SafetyMonitor default_config 0" low_confidence_event 1000 default_config 0
              strict_monitor]
        recordInputEvent_inactive_noop
          [of "stopMonitoring strict_monitor" low_confidence_event 1000 default_config 0
              strict_monitor]
  by simp

text \<open>
  Claim C8. On an active monitor whose \<open>minHumanLikenessScore\<close> is 0.9 and that has
  recorded no event yet, recording one event of confidence 0.5 creates exactly one alert,
  of level Warning and type unnatural-timing.
\<close>

theorem low_confidence_event_one_warning:
  assumes "isActive st"
    and "minHumanLikenessScore (sm_config st) = 0.9"
    and "confidence event = 0.5"
    and "inputHistory st = []"
    and "length (alerts st) < 1000"
  shows "alerts (recordInputEvent st event now)
           = alerts st @ [\<lparr> alert_level = WARNING, alert_type = UNNATURAL_TIMING,
                             alert_timestamp = now \<rparr>]"
  using assms
  by (simp add: recordInputEvent_def performRealTimeSafetyCheck_def createAlert_def Let_def)

theorem low_confidence_event_one_warning_witness:
  "isActive strict_monitor
   \<and> minHumanLikenessScore (sm_config strict_monitor) = 0.9
   \<and> confidence low_confidence_event = 0.5
   \<and> inputHistory strict_monitor = []
   \<and> alerts strict_monitor = []
   \<and> alerts (recordInputEvent strict_monitor low_confidence_event 1000)
       = [\<lparr> alert_level = WARNING, alert_type = UNNATURAL_TIMING, alert_timestamp = 1000 \<rparr>]"
proof -
  have f: "isActive strict_monitor" "minHumanLikenessScore (sm_config strict_monitor) = 0.9"
    "confidence low_confidence_event = 0.5" "inputHistory strict_monitor = []"
    "alerts strict_monitor = []"
    by (simp_all add: strict_monitor_def startMonitoring_def new_SafetyMonitor_def
          default_config_def low_confidence_event_def)
  from f have "length (alerts strict_monitor) < 1000" by simp
  from low_confidence_event_one_warning [OF f(1) f(2) f(3) f(4) this, of 1000] f
  show ?thesis by simp
qed

section \<open>Operation sequences with every gate closed\<close>

text \<open>
  Claim C9. When \<open>allowReordering\<close>, \<open>allowOmission\<close> and \<open>allowDuplication\<close> are
  all false or absent, \<open>randomizeOperationSequence\<close> returns the input sequence element
  for element with an empty list of variations, and the randomizer is left as it was: no
  record is appended to its history and no random value is drawn.
\<close>

theorem randomizeOperationSequence_gates_closed:
  assumes "\<not> truthy (allowReordering context)"
    and "\<not> truthy (allowOmission context)"
    and "\<not> truthy (allowDuplication context)"
  shows "randomizeOperationSequence st sequence context now = Some ((sequence, []), st)"
  using assms by (simp add: randomizeOperationSequence_def gated_step_def)

theorem randomizeOperationSequence_gates_closed_witness:
  "\<not> truthy (allowReordering no_gates) \<and> \<not> truthy (allowOmission no_gates)
   \<and> \<not> truthy (allowDuplication no_gates)
   \<and> randomizeOperationSequence
         (new_BehaviorRandomizer fresh_session default_pattern_config 0 [])
         [''a'', ''b'', ''c''] no_gates 5
       = Some (([''a'', ''b'', ''c''], []),
               new_BehaviorRandomizer fresh_session default_pattern_config 0 [])"
  using randomizeOperationSequence_gates_closed
          [of no_gates "new_BehaviorRandomizer fresh_session default_pattern_config 0 []"
              "[''a'', ''b'', ''c'']" 5]
  by (simp add: no_gates_def)

section \<open>The periodic check after 61 seconds of a one-minute session\<close>

lemma checkRestRequirement_idle:
  "now - (case lastRestTime (usageStats st) of
            None \<Rightarrow> sessionStartTime (usageStats st)
          | Some t \<Rightarrow> if t = 0 then sessionStartTime (usageStats st) else t)
     < requiredRestInterval (sm_config st) * 60 * 1000
   \<Longrightarrow> checkRestRequirement st now = st"
  by (simp add: checkRestRequirement_def Let_def)

lemma checkBehaviorPatterns_idle:
  "length (inputHistory st) < 10 \<Longrightarrow> checkBehaviorPatterns st now = st"
  by (simp add: checkBehaviorPatterns_def analyzeBehaviorPatterns_def Let_def)

lemma checkFatigueLevel_idle:
  "\<not> num_gt (calculateFatigueLevel st now) (Fin (fatigueThreshold (sm_config st)))
   \<Longrightarrow> checkFatigueLevel st now = st"
  by (simp add: checkFatigueLevel_def)

lemma checkSystemHealth_idle:
  "length (inputHistory st) \<le> 15000 \<Longrightarrow> length (recent_alerts st now) \<le> 10
   \<Longrightarrow> checkSystemHealth st now = st"
  by (simp add: checkSystemHealth_def Let_def)

lemma after_duration_check:
  "alerts (checkSessionDuration one_minute_monitor_stamped 61000)
     = [\<lparr> alert_level = CRITICAL, alert_type = EXCESSIVE_USAGE, alert_timestamp = 61000 \<rparr>]"
  "callback_trace (checkSessionDuration one_minute_monitor_stamped 61000)
     = [InCreateAlert, InCheckSessionDuration]"
  "inputHistory (checkSessionDuration one_minute_monitor_stamped 61000) = []"
  "sessionHistory (checkSessionDuration one_minute_monitor_stamped 61000) = []"
  "sm_config (checkSessionDuration one_minute_monitor_stamped 61000)
     = default_config\<lparr>maxSessionDuration := 1\<rparr>"
  "sessionStartTime (usageStats (checkSessionDuration one_minute_monitor_stamped 61000)) = 0"
  "lastRestTime (usageStats (checkSessionDuration one_minute_monitor_stamped 61000)) = None"
  "operationCount_u (usageStats (checkSessionDuration one_minute_monitor_stamped 61000)) = 0"
  by (simp_all add: one_minute_monitor_stamped_def one_minute_monitor_def
        checkSessionDuration_def createAlert_def startMonitoring_def new_SafetyMonitor_def
        default_config_def Let_def)

lemma after_duration_check_fatigue:
  "calculateFatigueLevel (checkSessionDuration one_minute_monitor_stamped 61000) 61000 = Fin 0.4"
  by (simp add: calculateFatigueLevel_def after_duration_check default_config_def
        slice_last_def Let_def)

lemma periodic_check_is_duration_check:
  "performSafetyCheck one_minute_monitor 61000
     = checkSessionDuration one_minute_monitor_stamped 61000"
proof -
  let ?X = "checkSessionDuration one_minute_monitor_stamped 61000"
  have r: "checkRestRequirement ?X 61000 = ?X"
    by (rule checkRestRequirement_idle) (simp add: after_duration_check default_config_def)
  have b: "checkBehaviorPatterns ?X 61000 = ?X"
    by (rule checkBehaviorPatterns_idle) (simp add: after_duration_check)
  have f: "checkFatigueLevel ?X 61000 = ?X"
    by (rule checkFatigueLevel_idle)
       (simp add: after_duration_check_fatigue after_duration_check default_config_def)
  have h: "checkSystemHealth ?X 61000 = ?X"
    by (rule checkSystemHealth_idle) (simp_all add: after_duration_check recent_alerts_def)
  show ?thesis
    by (simp add: performSafetyCheck_def Let_def one_minute_monitor_stamped_def [symmetric] r b f h)
qed

text \<open>
  Claim C1. With \<open>maxSessionDuration\<close> one minute, emergency stop enabled and a callback
  registered, one periodic check 61 seconds after the session start creates exactly one
  alert, Critical and of type excessive-usage. The callback is invoked twice in that check:
  once inside \<open>createAlert\<close> and once more by \<open>checkSessionDuration\<close> itself.
\<close>

theorem periodic_check_calls_callback_twice:
  "alerts (performSafetyCheck one_minute_monitor 61000)
     = [\<lparr> alert_level = CRITICAL, alert_type = EXCESSIVE_USAGE, alert_timestamp = 61000 \<rparr>]
   \<and> length (callback_trace (performSafetyCheck one_minute_monitor 61000)) = 2"
  by (simp add: periodic_check_is_duration_check after_duration_check)

text \<open>
  Claim C2. The emergency-stop callback is invoked only inside alert creation. In the
  source \<open>checkSessionDuration\<close> invokes it a second time in its own body, after the call
  of \<open>createAlert\<close> has returned: of the two invocations that follow the one alert, the
  second is not made by \<open>createAlert\<close>.
\<close>

theorem checkSessionDuration_calls_callback_itself:
  "callback_trace (checkSessionDuration one_minute_monitor 61000)
     = [InCreateAlert, InCheckSessionDuration]
   \<and> length (alerts (checkSessionDuration one_minute_monitor 61000)) = 1"
  by (simp add: one_minute_monitor_def checkSessionDuration_def createAlert_def
        startMonitoring_def new_SafetyMonitor_def default_config_def Let_def)

section \<open>The safety score\<close>





subsection \<open>A state with the score 100\<close>

















section \<open>Fatigue\<close>

lemma num_add_zero_left: "num_add (Fin 0) x = x"
  by (cases x) simp_all

lemma num_add_zero_right: "num_add x (Fin 0) = x"
  by (cases x) simp_all

lemma fatigue_terms:
  "calculateFatigueLevel st now =
     num_min (Fin 1)
       (num_add (num_add (num_mul (time_fatigue st now) (Fin 0.4))
                         (num_mul (rate_fatigue (operation_rate st now)) (Fin 0.3)))
                (error_fatigue st))"
  by (simp add: calculateFatigueLevel_def time_fatigue_def rate_fatigue_def error_fatigue_def
        operation_rate_def recent_error_rate_def num_add_zero_left num_add_zero_right Let_def
        del: js_div.simps)

lemma fatigue_finite:
  assumes "0 < maxSessionDuration (sm_config st)"
    and "0 < now - sessionStartTime (usageStats st)"
    and "maxErrorRate (sm_config st) \<noteq> 0"
  shows "calculateFatigueLevel st now =
     Fin (min 1 (min 1 ((now - sessionStartTime (usageStats st))
                          / (maxSessionDuration (sm_config st) * 60 * 1000)) * 0.4
        + min 1 (real (operationCount_u (usageStats st))
                   / ((now - sessionStartTime (usageStats st)) / 60000) / 20) * 0.3
        + min 1 (recent_error_rate st / maxErrorRate (sm_config st)) * 0.3))"
  using assms by (simp add: calculateFatigueLevel_def recent_error_rate_def Let_def)

subsection \<open>\<open>NaN\<close> spreads, the other values keep their order\<close>

lemma num_min_NaN: "num_min a b \<noteq> NaN \<Longrightarrow> a \<noteq> NaN \<and> b \<noteq> NaN"
  by (cases a; cases b) simp_all

lemma num_add_NaN: "num_add a b \<noteq> NaN \<Longrightarrow> a \<noteq> NaN \<and> b \<noteq> NaN"
  by (cases a; cases b) simp_all

lemma num_mul_NaN: "num_mul a b \<noteq> NaN \<Longrightarrow> a \<noteq> NaN \<and> b \<noteq> NaN"
  by (cases a; cases b) simp_all

lemma num_min_mono:
  "num_le a b \<Longrightarrow> num_le (num_min (Fin 1) a) (num_min (Fin 1) b)"
  by (cases a; cases b) (simp_all add: min_le_iff_disj)

lemma num_add_mono:
  "num_le a b \<Longrightarrow> num_add a c \<noteq> NaN \<Longrightarrow> num_add b c \<noteq> NaN
     \<Longrightarrow> num_le (num_add a c) (num_add b c)"
  by (cases a; cases b; cases c) simp_all

lemma num_mul_mono:
  "num_le a b \<Longrightarrow> 0 < k \<Longrightarrow> num_le (num_mul a (Fin k)) (num_mul b (Fin k))"
  by (cases a; cases b) simp_all

subsection \<open>The three terms\<close>

lemma time_fatigue_mono:
  assumes "sm_config s1 = sm_config s2"
    and "0 \<le> maxSessionDuration (sm_config s1)"
    and "now1 - sessionStartTime (usageStats s1) \<le> now2 - sessionStartTime (usageStats s2)"
    and "time_fatigue s1 now1 \<noteq> NaN"
    and "time_fatigue s2 now2 \<noteq> NaN"
  shows "num_le (time_fatigue s1 now1) (time_fatigue s2 now2)"
  using assms
  by (auto simp: time_fatigue_def min_le_iff_disj divide_right_mono split: if_splits)

lemma error_fatigue_value:
  assumes "error_fatigue st \<noteq> NaN"
  shows "error_fatigue st =
           Fin (if recent_error_rate st = 0 then 0
                else if maxErrorRate (sm_config st) = 0 then 0.3
                else min 1 (recent_error_rate st / maxErrorRate (sm_config st)) * 0.3)"
proof -
  have nn: "0 \<le> recent_error_rate st"
    by (simp add: recent_error_rate_def Let_def)
  have e: "slice_last 10 (sessionHistory st) = [] \<Longrightarrow> recent_error_rate st = 0"
    by (simp add: recent_error_rate_def Let_def)
  show ?thesis using assms nn e
    by (auto simp: error_fatigue_def split: if_splits)
qed

subsection \<open>When the fatigue level is not a number\<close>

text \<open>
  The fatigue level is \<open>NaN\<close> exactly when one of its terms is the quotient 0/0: no time
  has passed and the maximal session duration is 0 or no operation is counted, or a session
  is recorded, the recent error rate is 0 and the maximal error rate is 0.
\<close>

lemma time_fatigue_NaN:
  "time_fatigue st now = NaN \<longleftrightarrow>
     now - sessionStartTime (usageStats st) = 0 \<and> maxSessionDuration (sm_config st) = 0"
  by (auto simp: time_fatigue_def split: if_splits)

lemma time_fatigue_PInf: "time_fatigue st now \<noteq> PInf"
  by (auto simp: time_fatigue_def split: if_splits)

lemma rate_fatigue_NaN:
  "rate_fatigue (operation_rate st now) = NaN \<longleftrightarrow>
     now - sessionStartTime (usageStats st) = 0 \<and> operationCount_u (usageStats st) = 0"
  by (auto simp: rate_fatigue_def operation_rate_def split: if_splits)

lemma rate_fatigue_Fin: "rate_fatigue (operation_rate st now) \<noteq> NaN
    \<Longrightarrow> \<exists>r. rate_fatigue (operation_rate st now) = Fin r"
  by (auto simp: rate_fatigue_def operation_rate_def split: if_splits)

lemma error_fatigue_NaN:
  "error_fatigue st = NaN \<longleftrightarrow>
     sessionHistory st \<noteq> [] \<and> recent_error_rate st = 0 \<and> maxErrorRate (sm_config st) = 0"
proof -
  have nn: "0 \<le> recent_error_rate st"
    by (simp add: recent_error_rate_def Let_def)
  have e: "slice_last 10 (sessionHistory st) = [] \<longleftrightarrow> sessionHistory st = []"
    by (cases "sessionHistory st") (auto simp: slice_last_def)
  show ?thesis using nn e
    by (auto simp: error_fatigue_def split: if_splits)
qed

lemma error_fatigue_Fin: "error_fatigue st \<noteq> NaN \<Longrightarrow> \<exists>r. error_fatigue st = Fin r"
  using error_fatigue_value by blast

lemma num_NaN_absorbs:
  "num_add a NaN = NaN" "num_add NaN a = NaN" "num_mul NaN a = NaN" "num_min a NaN = NaN"
  by (cases a; simp)+

lemma fatigue_sum_NaN:
  assumes "t \<noteq> PInf"
  shows "num_min (Fin 1) (num_add (num_add (num_mul t (Fin 0.4)) (num_mul (Fin r) (Fin 0.3))) (Fin e)) = NaN
           \<longleftrightarrow> t = NaN"
  using assms by (cases t) simp_all

lemma fatigue_NaN_iff:
  "calculateFatigueLevel st now = NaN \<longleftrightarrow>
     (now - sessionStartTime (usageStats st) = 0
        \<and> (maxSessionDuration (sm_config st) = 0 \<or> operationCount_u (usageStats st) = 0))
     \<or> (sessionHistory st \<noteq> [] \<and> recent_error_rate st = 0 \<and> maxErrorRate (sm_config st) = 0)"
proof (cases "rate_fatigue (operation_rate st now) = NaN \<or> error_fatigue st = NaN")
  case True
  then have "calculateFatigueLevel st now = NaN"
    unfolding fatigue_terms by (auto simp: num_NaN_absorbs)
  moreover from True have "(now - sessionStartTime (usageStats st) = 0
        \<and> operationCount_u (usageStats st) = 0)
     \<or> (sessionHistory st \<noteq> [] \<and> recent_error_rate st = 0 \<and> maxErrorRate (sm_config st) = 0)"
    by (simp only: rate_fatigue_NaN error_fatigue_NaN)
  ultimately show ?thesis by auto
next
  case False
  then obtain r e where r: "rate_fatigue (operation_rate st now) = Fin r"
    and e: "error_fatigue st = Fin e"
    using rate_fatigue_Fin error_fatigue_Fin by blast
  have "calculateFatigueLevel st now = NaN \<longleftrightarrow> time_fatigue st now = NaN"
    unfolding fatigue_terms r e by (rule fatigue_sum_NaN) (rule time_fatigue_PInf)
  moreover from False have "\<not> (now - sessionStartTime (usageStats st) = 0
        \<and> operationCount_u (usageStats st) = 0)"
    "\<not> (sessionHistory st \<noteq> [] \<and> recent_error_rate st = 0 \<and> maxErrorRate (sm_config st) = 0)"
    by (simp_all add: rate_fatigue_NaN error_fatigue_NaN)
  ultimately show ?thesis
    unfolding time_fatigue_NaN by auto
qed

subsection \<open>Elapsed time\<close>

text \<open>
  Claim C7, as stated: for any two elapsed times \<open>t1 \<le> t2\<close> with the same operation
  rate and the same recent error rate, the fatigue level at \<open>t1\<close> is at most the one at
  \<open>t2\<close>. On a monitor configured with \<open>maxSessionDuration = -1\<close>, without operations
  and sessions, the fatigue level is -0.4 after 60 seconds and -0.8 after 120 seconds. On a
  monitor configured with \<open>maxErrorRate = 0\<close> that has recorded one session without
  errors, the error term is 0/0 and the fatigue level is \<open>NaN\<close> at both moments, and
  \<open>NaN <= NaN\<close> is false.
\<close>

theorem fatigue_decreases_or_is_NaN:
  "operation_rate negative_duration_monitor 60000
     = operation_rate negative_duration_monitor 120000
   \<and> calculateFatigueLevel negative_duration_monitor 60000 = Fin (- 0.4)
   \<and> calculateFatigueLevel negative_duration_monitor 120000 = Fin (- 0.8)
   \<and> \<not> num_le (calculateFatigueLevel negative_duration_monitor 60000)
               (calculateFatigueLevel negative_duration_monitor 120000)
   \<and> operation_rate zero_error_rate_monitor 60000 = operation_rate zero_error_rate_monitor 120000
   \<and> calculateFatigueLevel zero_error_rate_monitor 60000 = NaN
   \<and> calculateFatigueLevel zero_error_rate_monitor 120000 = NaN
   \<and> \<not> num_le (calculateFatigueLevel zero_error_rate_monitor 60000)
               (calculateFatigueLevel zero_error_rate_monitor 120000)"
  by (simp add: negative_duration_monitor_def zero_error_rate_monitor_def clean_session_def
        recordSession_def new_SafetyMonitor_def default_config_def operation_rate_def
        calculateFatigueLevel_def slice_last_def Let_def)

text \<open>
  Claim C7, amended. For a monitor configuration whose maximal session duration is not
  negative, and two moments at which the fatigue level is a number (not \<open>NaN\<close>: no term
  of it is the quotient 0/0), with elapsed session times \<open>t1 \<le> t2\<close>, the same
  operations-per-minute rate and the same recent error rate, the fatigue level at \<open>t1\<close>
  is at most the fatigue level at \<open>t2\<close>.
\<close>

theorem fatigue_nondecreasing_in_elapsed_time:
  assumes cfg: "sm_config s1 = sm_config s2"
    and M: "0 \<le> maxSessionDuration (sm_config s1)"
    and n1: "calculateFatigueLevel s1 now1 \<noteq> NaN"
    and n2: "calculateFatigueLevel s2 now2 \<noteq> NaN"
    and le: "now1 - sessionStartTime (usageStats s1) \<le> now2 - sessionStartTime (usageStats s2)"
    and rate: "operation_rate s1 now1 = operation_rate s2 now2"
    and err: "recent_error_rate s1 = recent_error_rate s2"
  shows "num_le (calculateFatigueLevel s1 now1) (calculateFatigueLevel s2 now2)"
proof -
  let ?T1 = "num_mul (time_fatigue s1 now1) (Fin 0.4)"
  let ?T2 = "num_mul (time_fatigue s2 now2) (Fin 0.4)"
  let ?R = "num_mul (rate_fatigue (operation_rate s2 now2)) (Fin 0.3)"
  have a1: "num_add (num_add ?T1 ?R) (error_fatigue s1) \<noteq> NaN"
    using n1 num_min_NaN unfolding fatigue_terms rate by blast
  have a2: "num_add (num_add ?T2 ?R) (error_fatigue s2) \<noteq> NaN"
    using n2 num_min_NaN unfolding fatigue_terms by blast
  have b1: "num_add ?T1 ?R \<noteq> NaN" "error_fatigue s1 \<noteq> NaN"
    using num_add_NaN [OF a1] by simp_all
  have b2: "num_add ?T2 ?R \<noteq> NaN" "error_fatigue s2 \<noteq> NaN"
    using num_add_NaN [OF a2] by simp_all
  have t1: "time_fatigue s1 now1 \<noteq> NaN"
    using num_add_NaN [OF b1(1)] num_mul_NaN by blast
  have t2: "time_fatigue s2 now2 \<noteq> NaN"
    using num_add_NaN [OF b2(1)] num_mul_NaN by blast
  have e: "error_fatigue s1 = error_fatigue s2"
    unfolding error_fatigue_value [OF b1(2)] error_fatigue_value [OF b2(2)]
    by (simp add: cfg err)
  have "num_le (time_fatigue s1 now1) (time_fatigue s2 now2)"
    by (rule time_fatigue_mono [OF cfg M le t1 t2])
  then have "num_le ?T1 ?T2"
    by (rule num_mul_mono) simp
  then have "num_le (num_add ?T1 ?R) (num_add ?T2 ?R)"
    using b1(1) b2(1) by (rule num_add_mono)
  then have "num_le (num_add (num_add ?T1 ?R) (error_fatigue s2))
                    (num_add (num_add ?T2 ?R) (error_fatigue s2))"
    using a1 a2 unfolding e by (rule num_add_mono)
  then show ?thesis
    unfolding fatigue_terms rate e by (rule num_min_mono)
qed

theorem fatigue_nondecreasing_in_elapsed_time_witness:
  "sm_config (monitor_with_operations 10) = sm_config (monitor_with_operations 20)
   \<and> 0 \<le> maxSessionDuration (sm_config (monitor_with_operations 10))
   \<and> calculateFatigueLevel (monitor_with_operations 10) 60000 \<noteq> NaN
   \<and> calculateFatigueLevel (monitor_with_operations 20) 120000 \<noteq> NaN
   \<and> 60000 - sessionStartTime (usageStats (monitor_with_operations 10))
       \<le> 120000 - sessionStartTime (usageStats (monitor_with_operations 20))
   \<and> operation_rate (monitor_with_operations 10) 60000 = Fin 10
   \<and> operation_rate (monitor_with_operations 20) 120000 = Fin 10
   \<and> recent_error_rate (monitor_with_operations 10) = recent_error_rate (monitor_with_operations 20)
   \<and> num_le (calculateFatigueLevel (monitor_with_operations 10) 60000)
             (calculateFatigueLevel (monitor_with_operations 20) 120000)"
proof -
  have f: "sm_config (monitor_with_operations n) = default_config"
    "sessionHistory (monitor_with_operations n) = []"
    "sessionStartTime (usageStats (monitor_with_operations n)) = 0"
    "operationCount_u (usageStats (monitor_with_operations n)) = n" for n
    by (simp_all add: monitor_with_operations_def new_SafetyMonitor_def)
  have c: "maxSessionDuration default_config = 240" "maxErrorRate default_config = 0.1"
    by (simp_all add: default_config_def)
  have n: "calculateFatigueLevel (monitor_with_operations 10) 60000 \<noteq> NaN"
    "calculateFatigueLevel (monitor_with_operations 20) 120000 \<noteq> NaN"
    by (simp_all add: fatigue_finite f c)
  have r: "operation_rate (monitor_with_operations 10) 60000 = Fin 10"
    "operation_rate (monitor_with_operations 20) 120000 = Fin 10"
    by (simp_all add: operation_rate_def f)
  have e: "recent_error_rate (monitor_with_operations n) = 0" for n
    by (simp add: recent_error_rate_def f slice_last_def)
  from fatigue_nondecreasing_in_elapsed_time
         [of "monitor_with_operations 10" "monitor_with_operations 20" 60000 120000] n
  show ?thesis by (simp add: f c r e)
qed

section \<open>Randomized delays\<close>

subsection \<open>A call returns when the draws suffice\<close>

lemma draw_nonzero_total:
  "1 \<le> nonzero_draws tape \<Longrightarrow>
     \<exists>u rest. draw_nonzero tape = Some (u, rest) \<and> u \<noteq> 0
        \<and> nonzero_draws rest = nonzero_draws tape - 1"
  by (induction tape) (auto simp: nonzero_draws_def)

lemma gaussianRandom_total:
  assumes "2 \<le> nonzero_draws tape"
  shows "\<exists>z rest. gaussianRandom m sd tape = Some (z, rest)
           \<and> nonzero_draws rest = nonzero_draws tape - 2"
proof -
  from assms have "1 \<le> nonzero_draws tape" by simp
  from draw_nonzero_total [OF this] obtain u t1 where
    a: "draw_nonzero tape = Some (u, t1)" "nonzero_draws t1 = nonzero_draws tape - 1"
    by blast
  with assms have "1 \<le> nonzero_draws t1" by simp
  from draw_nonzero_total [OF this] obtain v t2 where
    b: "draw_nonzero t1 = Some (v, t2)" "nonzero_draws t2 = nonzero_draws t1 - 1"
    by blast
  show ?thesis using a b by (simp add: gaussianRandom_def Let_def)
qed

lemma nonzero_draws_tl: "nonzero_draws (tl tape) \<le> nonzero_draws tape"
  by (cases tape) (simp_all add: nonzero_draws_def)

lemma nonzero_draws_nonempty: "1 \<le> nonzero_draws tape \<Longrightarrow> tape \<noteq> []"
  by (auto simp: nonzero_draws_def)

lemma applyRhythmicVariation_total:
  assumes "random st \<noteq> []"
  shows "\<exists>r st'. applyRhythmicVariation st b now = Some (r, st')
           \<and> (random st' = random st \<or> random st' = tl (random st))"
proof -
  from assms obtain u us where "random st = u # us"
    by (cases "random st") auto
  then show ?thesis
    by (simp add: applyRhythmicVariation_def push_variation_def Let_def)
qed

lemma applyAttentionImpact_total:
  assumes "random st \<noteq> []"
  shows "\<exists>r st'. applyAttentionImpact st b now = Some (r, st') \<and> random st' = tl (random st)"
proof -
  from assms obtain u us where "random st = u # us"
    by (cases "random st") auto
  then show ?thesis
    by (simp add: applyAttentionImpact_def push_variation_def Let_def)
qed

lemma applyFatigueImpact_total:
  assumes "random st \<noteq> []"
  shows "\<exists>r st'. applyFatigueImpact st b now = Some (r, st') \<and> random st' = tl (random st)"
proof -
  from assms obtain u us where "random st = u # us"
    by (cases "random st") auto
  then show ?thesis
    by (simp add: applyFatigueImpact_def push_variation_def Let_def)
qed

lemma applyStrategicRandomization_total:
  assumes "2 \<le> nonzero_draws (random st)"
  shows "\<exists>r st'. applyStrategicRandomization st b c now = Some (r, st')"
proof -
  from gaussianRandom_total [OF assms] obtain z rest where
    "gaussianRandom 0 (b * strategy_spread (strategy (config st))) (random st) = Some (z, rest)"
    by blast
  then show ?thesis by (simp add: applyStrategicRandomization_def Let_def)
qed

text \<open>
  A call draws at most three values before the Gaussian draw of the strategic contributor,
  which needs two non-zero values.
\<close>

lemma randomizeDelay_total:
  assumes "2 \<le> nonzero_draws (drop 3 (random st))"
  shows "\<exists>res st'. randomizeDelay st b c now = Some (res, st')"
proof -
  let ?t = "random st"
  have d3: "drop 3 ?t = tl (tl (tl ?t))"
    by (simp add: drop_Suc numeral_3_eq_3 tl_drop)
  have n3: "2 \<le> nonzero_draws (tl (tl (tl ?t)))" using assms d3 by simp
  then have n2: "2 \<le> nonzero_draws (tl (tl ?t))"
    using nonzero_draws_tl [of "tl (tl ?t)"] by linarith
  then have n1: "2 \<le> nonzero_draws (tl ?t)"
    using nonzero_draws_tl [of "tl ?t"] by linarith
  then have n0: "2 \<le> nonzero_draws ?t"
    using nonzero_draws_tl [of "?t"] by linarith
  have ne0: "?t \<noteq> []" using n0 nonzero_draws_nonempty by force
  have ne1: "tl ?t \<noteq> []" using n1 nonzero_draws_nonempty by force
  have ne2: "tl (tl ?t) \<noteq> []" using n2 nonzero_draws_nonempty by force
  from applyRhythmicVariation_total [OF ne0] obtain r st1 where
    1: "applyRhythmicVariation st b now = Some (r, st1)"
       "random st1 = ?t \<or> random st1 = tl ?t"
    by blast
  then have ne_st1: "random st1 \<noteq> []" "tl (random st1) \<noteq> []"
    and k1: "2 \<le> nonzero_draws (tl (tl (random st1)))"
    using ne0 ne1 ne2 n2 n3 by auto
  from applyAttentionImpact_total [OF ne_st1(1)] obtain a st2 where
    2: "applyAttentionImpact st1 b now = Some (a, st2)" "random st2 = tl (random st1)"
    by blast
  then have "random st2 \<noteq> []" using ne_st1 by simp
  from applyFatigueImpact_total [OF this] obtain f st3 where
    3: "applyFatigueImpact st2 b now = Some (f, st3)" "random st3 = tl (random st2)"
    by blast
  then have "2 \<le> nonzero_draws (random st3)" using 2 k1 by simp
  from applyStrategicRandomization_total [OF this] obtain s st4 where
    4: "applyStrategicRandomization st3 b c now = Some (s, st4)"
    by blast
  show ?thesis using 1 2 3 4 by (simp add: randomizeDelay_def Let_def)
qed

lemma zero_offset_randomizer_draws:
  "2 \<le> nonzero_draws (drop 3 (random zero_offset_randomizer))"
  by (simp add: zero_offset_randomizer_def new_BehaviorRandomizer_def nonzero_draws_def)

subsection \<open>The clamp\<close>

lemma randomizeDelay_clamped:
  assumes "randomizeDelay st b c now = Some (res, st')" and "0 < b"
  shows "b * 0.3 \<le> delay res \<and> delay res \<le> b * 3"
proof -
  from assms(1) obtain x where "delay res = max (b * 0.3) (min (b * 3.0) x)"
    by (auto simp: randomizeDelay_def Let_def split: option.splits prod.splits)
  with assms(2) show ?thesis by simp
qed

text \<open>
  Claim C4. For every positive base delay, every context, every randomizer state (hence
  every strategy) and every outcome of the random draws, \<open>randomizeDelay\<close> returns a
  delay in \<open>[0.3 * baseDelay, 3.0 * baseDelay]\<close>. The call returns whenever two non-zero
  values come after the first three draws.
\<close>

theorem randomizeDelay_within_bounds:
  assumes "0 < baseDelay"
    and "2 \<le> nonzero_draws (drop 3 (random st))"
  shows "\<exists>res st'. randomizeDelay st baseDelay context now = Some (res, st')
           \<and> 0.3 * baseDelay \<le> delay res \<and> delay res \<le> 3.0 * baseDelay"
proof -
  from randomizeDelay_total [OF assms(2)] obtain res st' where
    r: "randomizeDelay st baseDelay context now = Some (res, st')"
    by blast
  from randomizeDelay_clamped [OF r assms(1)] r show ?thesis by auto
qed

theorem randomizeDelay_within_bounds_witness:
  "(0 :: real) < 100
   \<and> 2 \<le> nonzero_draws (drop 3 (random zero_offset_randomizer))
   \<and> (\<exists>res st'. randomizeDelay zero_offset_randomizer 100 plain_context 0 = Some (res, st')
         \<and> 0.3 * 100 \<le> delay res \<and> delay res \<le> 3.0 * 100)"
  using randomizeDelay_within_bounds [of 100 zero_offset_randomizer plain_context 0]
    zero_offset_randomizer_draws
  by simp

subsection \<open>The records of a call\<close>

lemma gaussian_half_quarter: "gaussianRandom 0 sd [1/2, 1/4] = Some (0, [])"
  by (simp add: gaussianRandom_def box_muller_def)

lemma applyRhythmicVariation_effect:
  assumes "applyRhythmicVariation st b now = Some (r, st1)"
  shows "config st1 = config st \<and> variations st1 = variations st @ records_of [r]
         \<and> (variation r = None) = (rhythmicVariation (config st) = 0)"
  using assms
  by (auto simp: applyRhythmicVariation_def push_variation_def records_of_def Let_def
        split: if_splits option.splits prod.splits)

lemma applyAttentionImpact_effect:
  assumes "applyAttentionImpact st b now = Some (r, st1)"
  shows "config st1 = config st \<and> variations st1 = variations st @ records_of [r]
         \<and> variation r \<noteq> None"
  using assms
  by (auto simp: applyAttentionImpact_def push_variation_def records_of_def Let_def
        split: option.splits prod.splits)

lemma applyFatigueImpact_effect:
  assumes "applyFatigueImpact st b now = Some (r, st1)"
  shows "config st1 = config st \<and> variations st1 = variations st @ records_of [r]
         \<and> variation r \<noteq> None"
  using assms
  by (auto simp: applyFatigueImpact_def push_variation_def records_of_def Let_def
        split: option.splits prod.splits)

lemma applyStrategicRandomization_effect:
  assumes "applyStrategicRandomization st b c now = Some (r, st1)"
  shows "config st1 = config st \<and> variations st1 = variations st @ records_of [r]
         \<and> variation r \<noteq> None"
  using assms
  by (auto simp: applyStrategicRandomization_def push_variation_def records_of_def Let_def
        split: option.splits prod.splits)

lemma records_of_append: "records_of (xs @ ys) = records_of xs @ records_of ys"
  by (simp add: records_of_def)

lemma add_contribution_snd:
  "snd (add_contribution r acc) = snd acc @ map variation (filter (\<lambda>x. offset x \<noteq> 0) [r])"
  by (simp add: add_contribution_def)

lemma randomizeDelay_has_contributions:
  assumes "randomizeDelay st b c now = Some (res, st')"
  shows "\<exists>cs st4. delay_contributions st b c now = Some (cs, st4)"
  using assms
  by (auto simp: randomizeDelay_def delay_contributions_def split: option.splits prod.splits)

lemma randomizeDelay_contributions:
  assumes rd: "randomizeDelay st b c now = Some (res, st')"
    and dc: "delay_contributions st b c now = Some (cs, st4)"
  shows "length cs = 4"
    and "delay_variations res = map variation (filter (\<lambda>x. offset x \<noteq> 0) cs)"
    and "variations st' = variations st @ records_of cs"
    and "map (\<lambda>x. variation x = None) cs
           = [rhythmicVariation (config st) = 0, False, False, False]"
proof -
  from dc obtain r st1 a st2 f st3 s where
    1: "applyRhythmicVariation st b now = Some (r, st1)" and
    2: "applyAttentionImpact st1 b now = Some (a, st2)" and
    3: "applyFatigueImpact st2 b now = Some (f, st3)" and
    4: "applyStrategicRandomization st3 b c now = Some (s, st4)" and
    cs: "cs = [r, a, f, s]"
    by (auto simp: delay_contributions_def split: option.splits prod.splits)
  from rd have res: "delay_variations res
        = snd (add_contribution s (add_contribution f (add_contribution a
            (add_contribution r (b, [])))))"
    and st': "variations st' = variations st4"
    by (auto simp: randomizeDelay_def 1 2 3 4 Let_def)
  note e1 = applyRhythmicVariation_effect [OF 1]
    and e2 = applyAttentionImpact_effect [OF 2]
    and e3 = applyFatigueImpact_effect [OF 3]
    and e4 = applyStrategicRandomization_effect [OF 4]
  show "length cs = 4" by (simp add: cs)
  show "delay_variations res = map variation (filter (\<lambda>x. offset x \<noteq> 0) cs)"
    unfolding res add_contribution_snd cs by simp
  show "variations st' = variations st @ records_of cs"
    using e1 e2 e3 e4 st' records_of_append [of "[r]" "[a, f, s]"]
      records_of_append [of "[a]" "[f, s]"] records_of_append [of "[f]" "[s]"]
    by (simp add: cs)
  show "map (\<lambda>x. variation x = None) cs
          = [rhythmicVariation (config st) = 0, False, False, False]"
    using e1 e2 e3 e4 by (simp add: cs)
qed

text \<open>
  Claim C5, as stated: a call appends one record to the history per contributor with a
  non-zero offset and none for a contributor whose offset is zero. On a fresh session with
  the default configuration and the draws 1/2, 1/2, 1/2, 1/2, 1/4 all four offsets are
  zero, and yet the history, empty before the call, holds four records after it.
\<close>

theorem zero_offsets_still_recorded:
  "randomizeDelay zero_offset_randomizer 100 plain_context 0 \<noteq> None
   \<and> map offset (fst (the (delay_contributions zero_offset_randomizer 100 plain_context 0)))
       = [0, 0, 0, 0]
   \<and> variations zero_offset_randomizer = []
   \<and> length (variations (snd (the (randomizeDelay zero_offset_randomizer 100 plain_context 0))))
       = 4"
  by (simp add: randomizeDelay_def delay_contributions_def zero_offset_randomizer_def
        new_BehaviorRandomizer_def fresh_session_def default_pattern_config_def
        applyRhythmicVariation_def applyAttentionImpact_def applyFatigueImpact_def
        applyStrategicRandomization_def push_variation_def slice_last_def
        gaussian_half_quarter Let_def add_contribution_def)

text \<open>
  Claim C5, amended. A call of \<open>randomizeDelay\<close> has four contributors. The list of
  variations it returns holds exactly the records of the contributors whose offset is
  non-zero, in order. The history of the randomizer is extended by the record of every
  contributor that made one, whatever its offset: the attention, fatigue and strategic
  contributors always make one, the rhythmic contributor unless \<open>rhythmicVariation\<close> is
  configured as 0.
\<close>

theorem randomizeDelay_variation_records:
  assumes "2 \<le> nonzero_draws (drop 3 (random st))"
  shows "\<exists>res st' cs st4.
           randomizeDelay st baseDelay context now = Some (res, st')
           \<and> delay_contributions st baseDelay context now = Some (cs, st4)
           \<and> length cs = 4
           \<and> delay_variations res = map variation (filter (\<lambda>x. offset x \<noteq> 0) cs)
           \<and> variations st' = variations st @ records_of cs
           \<and> map (\<lambda>x. variation x = None) cs
               = [rhythmicVariation (config st) = 0, False, False, False]"
proof -
  from randomizeDelay_total [OF assms] obtain res st' where
    r: "randomizeDelay st baseDelay context now = Some (res, st')"
    by blast
  from randomizeDelay_has_contributions [OF r] obtain cs st4 where
    dc: "delay_contributions st baseDelay context now = Some (cs, st4)"
    by blast
  show ?thesis
    by (rule exI [of _ res], rule exI [of _ st'], rule exI [of _ cs], rule exI [of _ st4])
       (simp add: r dc randomizeDelay_contributions [OF r dc])
qed

theorem randomizeDelay_variation_records_witness:
  "2 \<le> nonzero_draws (drop 3 (random zero_offset_randomizer))
   \<and> (\<exists>res st' cs st4.
         randomizeDelay zero_offset_randomizer 100 plain_context 0 = Some (res, st')
         \<and> delay_contributions zero_offset_randomizer 100 plain_context 0 = Some (cs, st4)
         \<and> length cs = 4
         \<and> delay_variations res = map variation (filter (\<lambda>x. offset x \<noteq> 0) cs)
         \<and> variations st' = variations zero_offset_randomizer @ records_of cs
         \<and> map (\<lambda>x. variation x = None) cs
             = [rhythmicVariation (config zero_offset_randomizer) = 0, False, False, False])"
  using randomizeDelay_variation_records [of zero_offset_randomizer 100 plain_context 0]
    zero_offset_randomizer_draws
  by simp

section \<open>The endpoints of a mouse path\<close>

subsection \<open>The length of the curve and the step count\<close>








subsection \<open>The samples of a path\<close>














subsection \<open>Paths on which the claim as stated fails\<close>













end
